theory Spec2Isabelle
  imports Main "HOL-Library.Multiset"
begin

section \<open>JavaScript values and JSON texts\<close>

text \<open>
  The values that flow through \<open>chain-explorer.js\<close>: response bodies decoded by the
  transport (\<open>json: true\<close>), the values the adapters resolve with, and the \<open>Error\<close>
  instances they reject with. Numbers are restricted to the integers (block heights and unix
  timestamps); an object is the list of its own enumerable properties in enumeration order.
\<close>

datatype jsval =
    JUndefined
  | JNull
  | JBool bool
  | JNum int
  | JStr string
  | JArr "jsval list"
  | JObj "(string \<times> jsval) list"
  | JError string

text \<open>
  The text produced by \<open>JSON.stringify\<close>, kept as its syntax tree. \<open>JSON.stringify\<close> emits
  no whitespace and keeps the property order of the object, so two texts are the same string
  exactly when their trees are equal.
\<close>

datatype json =
    TNull
  | TBool bool
  | TNum int
  | TStr string
  | TArr "json list"
  | TObj "(string \<times> json) list"

text \<open>Truthiness, as tested by \<open>if (!body)\<close> and \<open>result && ...\<close>.\<close>

fun truthy :: "jsval \<Rightarrow> bool" where
  "truthy JUndefined = False"
| "truthy JNull = False"
| "truthy (JBool b) = b"
| "truthy (JNum n) = (n \<noteq> 0)"
| "truthy (JStr s) = (s \<noteq> [])"
| "truthy (JArr xs) = True"
| "truthy (JObj kvs) = True"
| "truthy (JError m) = True"

text \<open>\<open>result instanceof Error\<close>.\<close>

fun instanceof_Error :: "jsval \<Rightarrow> bool" where
  "instanceof_Error (JError m) = True"
| "instanceof_Error v = False"

text \<open>
  Property read \<open>body.name\<close> on a value that is neither \<open>undefined\<close> nor \<open>null\<close>. Only the
  names \<open>size\<close>, \<open>blockHash\<close>, \<open>merkleroot\<close>, \<open>time\<close>, \<open>merkle_root\<close> and \<open>timestamp\<close> are read
  by the program; none of them is a built-in property of a string, number, boolean or
  array, so the read yields \<open>undefined\<close> outside objects.
\<close>

fun get_prop :: "jsval \<Rightarrow> string \<Rightarrow> jsval" where
  "get_prop (JObj kvs) k = (case map_of kvs k of Some v \<Rightarrow> v | None \<Rightarrow> JUndefined)"
| "get_prop v k = JUndefined"

text \<open>
  \<open>JSON.stringify\<close>: \<open>None\<close> is the result \<open>undefined\<close> (for the value \<open>undefined\<close>). Inside
  an array an \<open>undefined\<close> element is written \<open>null\<close>; inside an object a property whose value
  is \<open>undefined\<close> is left out. An \<open>Error\<close> has no enumerable property of its own and is written
  \<open>{}\<close>.
\<close>

primrec JSON_stringify :: "jsval \<Rightarrow> json option" where
  "JSON_stringify JUndefined = None"
| "JSON_stringify JNull = Some TNull"
| "JSON_stringify (JBool b) = Some (TBool b)"
| "JSON_stringify (JNum n) = Some (TNum n)"
| "JSON_stringify (JStr s) = Some (TStr s)"
| "JSON_stringify (JArr xs) =
     Some (TArr (map (\<lambda>r. case r of None \<Rightarrow> TNull | Some t \<Rightarrow> t) (map JSON_stringify xs)))"
| "JSON_stringify (JObj kvs) =
     Some (TObj (List.map_filter (\<lambda>kr. map_option (Pair (fst kr)) (snd kr))
                   (map (map_prod id JSON_stringify) kvs)))"
| "JSON_stringify (JError m) = Some (TObj [])"

text \<open>
  \<open>JSON.parse\<close> on a text written by \<open>JSON.stringify\<close>. Such a text lists the properties
  of an object once each and in enumeration order, so the parsed object has them in the
  order of the text.
\<close>

primrec JSON_parse :: "json \<Rightarrow> jsval" where
  "JSON_parse TNull = JNull"
| "JSON_parse (TBool b) = JBool b"
| "JSON_parse (TNum n) = JNum n"
| "JSON_parse (TStr s) = JStr s"
| "JSON_parse (TArr ts) = JArr (map JSON_parse ts)"
| "JSON_parse (TObj kts) = JObj (map (map_prod id JSON_parse) kts)"

section \<open>Explorer adapters\<close>

text \<open>
  What \<open>requestPromise(options)\<close> settles with: the decoded body of the response, or a
  rejection with an \<open>Error\<close> (network failure, timeout, status code), given by its message.
\<close>

datatype http = Body jsval | Fail string

text \<open>A settled promise.\<close>

datatype outcome = Resolved jsval | Rejected jsval


text \<open>
  An instance of a subclass of \<open>ChainExplorer\<close>: the class tag selects the overridden
  \<open>parseBlockhash\<close> and \<open>parseBlockInfo\<close>.
\<close>

datatype explorer_class = ChainInsightClass | BlockstreamClass

record explorer =
  cls :: explorer_class
  timeout :: int
  urlBlockindex :: string
  urlBlock :: string

definition ChainInsight :: "string \<Rightarrow> int \<Rightarrow> explorer" where
  "ChainInsight u t =
     \<lparr>cls = ChainInsightClass, timeout = t * 1000,
      urlBlockindex = u @ ''/block-index'', urlBlock = u @ ''/block''\<rparr>"

definition Blockstream :: "string \<Rightarrow> int \<Rightarrow> explorer" where
  "Blockstream u t =
     \<lparr>cls = BlockstreamClass, timeout = t * 1000,
      urlBlockindex = u @ ''/block-height/'', urlBlock = u @ ''/block/''\<rparr>"


text \<open>\<open>ChainInsight.parseBlockInfo\<close>.\<close>

fun ChainInsight_parseBlockInfo :: "http \<Rightarrow> outcome" where
  "ChainInsight_parseBlockInfo (Fail err) = Rejected (JError err)"
| "ChainInsight_parseBlockInfo (Body body) =
     (if \<not> truthy body
      then Rejected (JError ''Insight response error body '')
      else if \<not> truthy (get_prop body ''merkleroot'') \<or> \<not> truthy (get_prop body ''time'')
      then Rejected (JError ''Insight response error body '')
      else Resolved (JObj [(''merkleroot'', get_prop body ''merkleroot''),
                           (''time'', get_prop body ''time'')]))"


text \<open>\<open>Blockstream.parseBlockInfo\<close>.\<close>

fun Blockstream_parseBlockInfo :: "http \<Rightarrow> outcome" where
  "Blockstream_parseBlockInfo (Fail err) = Rejected (JError err)"
| "Blockstream_parseBlockInfo (Body body) =
     (if \<not> truthy body
      then Rejected (JError ''Blockstream response error body '')
      else if \<not> truthy (get_prop body ''merkle_root'') \<or> \<not> truthy (get_prop body ''timestamp'')
      then Rejected (JError ''Blockstream response error body '')
      else Resolved (JObj [(''merkleroot'', get_prop body ''merkle_root''),
                           (''time'', get_prop body ''timestamp'')]))"





section \<open>The default registry and the construction of a MultiExplorer\<close>

definition publicChainInsightUrls :: "string \<Rightarrow> string list option" where
  "publicChainInsightUrls chain =
     (if chain = ''bitcoin'' then
        Some [''https://insight.bitpay.com/api'',
              ''https://btc-bitcore1.trezor.io/api'',
              ''https://btc-bitcore4.trezor.io/api'',
              ''https://blockexplorer.com/api'',
              ''https://bitcore.schmoock.net/insight-api'']
      else if chain = ''bitcoinTestnet'' then
        Some [''https://test-insight.bitpay.com/api'',
              ''https://testnet.blockexplorer.com/api'']
      else if chain = ''litecoin'' then
        Some [''https://ltc-bitcore1.trezor.io/api'',
              ''https://insight.litecore.io/api'']
      else None)"

text \<open>
  An entry of \<open>options.explorers\<close>; a property that the entry does not have reads as
  \<open>JUndefined\<close>.
\<close>

record explorer_spec =
  url :: jsval
  type :: jsval

text \<open>
  The \<open>options\<close> argument: each field is \<open>None\<close> when the object has no own property of that
  name.
\<close>

record options =
  opt_timeout :: "int option"
  opt_chain :: "string option"
  opt_explorers :: "explorer_spec list option"

datatype exn = TypeError string

record MultiExplorer =
  explorers :: "explorer list"

text \<open>
  The body of \<open>explorers.forEach\<close> in the constructor, with \<open>this.explorers\<close> as the
  accumulator; the \<open>throw\<close> leaves the loop and the constructor.
\<close>

fun push_explorers :: "int \<Rightarrow> explorer_spec list \<Rightarrow> explorer list \<Rightarrow> exn + explorer list" where
  "push_explorers t [] acc = Inr acc"
| "push_explorers t (e # es) acc =
     (case url e of
        JStr u \<Rightarrow>
          push_explorers t es
            (acc @ [if truthy (type e) \<and> type e = JStr ''insight''
                    then ChainInsight u t else Blockstream u t])
      | _ \<Rightarrow> Inl (TypeError ''URL must be a string''))"

text \<open>
  The first lines of the constructor; \<open>None\<close> is a call without \<open>options\<close>. The timeout
  defaults to 10 seconds and the chain to \<open>bitcoin\<close>.
\<close>

definition timeout_option :: "options option \<Rightarrow> int" where
  "timeout_option opts =
     (case opts of None \<Rightarrow> 10
      | Some opt \<Rightarrow> (case opt_timeout opt of None \<Rightarrow> 10 | Some t \<Rightarrow> t))"

definition chain_option :: "options option \<Rightarrow> string" where
  "chain_option opts =
     (case opts of None \<Rightarrow> ''bitcoin''
      | Some opt \<Rightarrow> (case opt_chain opt of None \<Rightarrow> ''bitcoin'' | Some c \<Rightarrow> c))"

text \<open>\<open>explorersOptionSet\<close>: the list is given and has more than one entry.\<close>

definition explorersOptionSet :: "options option \<Rightarrow> bool" where
  "explorersOptionSet opts =
     (case opts of None \<Rightarrow> False
      | Some opt \<Rightarrow> (case opt_explorers opt of None \<Rightarrow> False | Some es \<Rightarrow> length es > 1))"

text \<open>
  The list the constructor goes through: the given one, or the registry's urls of the chain
  as \<open>insight\<close> entries. Calling \<open>map\<close> on the missing registry entry of an unknown chain
  throws a \<open>TypeError\<close>. When \<open>explorersOptionSet\<close> holds the list is given, so the two
  \<open>None\<close> cases of the first branch are never reached.
\<close>

definition chosen_explorers :: "options option \<Rightarrow> exn + explorer_spec list" where
  "chosen_explorers opts =
     (if explorersOptionSet opts
      then (case opts of
              None \<Rightarrow> Inr []
            | Some opt \<Rightarrow> (case opt_explorers opt of None \<Rightarrow> Inr [] | Some es \<Rightarrow> Inr es))
      else (case publicChainInsightUrls (chain_option opts) of
              None \<Rightarrow> Inl (TypeError ''Cannot read property map of undefined'')
            | Some urls \<Rightarrow> Inr (map (\<lambda>u. \<lparr>url = JStr u, type = JStr ''insight''\<rparr>) urls)))"

text \<open>The constructor.\<close>

definition MultiExplorer_new :: "options option \<Rightarrow> exn + MultiExplorer" where
  "MultiExplorer_new opts =
     (case chosen_explorers opts of
        Inl err \<Rightarrow> Inl err
      | Inr es \<Rightarrow>
          (case push_explorers (timeout_option opts) es [] of
             Inl err \<Rightarrow> Inl err
           | Inr xs \<Rightarrow> Inr \<lparr>explorers = xs\<rparr>))"

section \<open>The consensus of a MultiExplorer\<close>

text \<open>
  Modelled from the spec: \<open>Utils.softFail\<close> of \<open>utils.js\<close>, which is not among the sources.
  The spec has each per-adapter failure "captured as data so it does not abort the overall
  fan-out/join": the wrapped promise resolves with the value of a resolved promise and with
  the error of a rejected one.
\<close>

fun softFail :: "outcome \<Rightarrow> jsval" where
  "softFail (Resolved v) = v"
| "softFail (Rejected err) = err"

text \<open>
  A JavaScript \<open>Set\<close> is a list without repetition in insertion order: \<open>size\<close> is its
  length and \<open>values().next().value\<close> its first element.
\<close>

definition Set_add :: "'a \<Rightarrow> 'a list \<Rightarrow> 'a list" where
  "Set_add x s = (if x \<in> set s then s else s @ [x])"

text \<open>
  The set after \<open>results.filter\<close> has run its callback over the results in order. An element is
  what \<open>JSON.stringify\<close> returned.
\<close>

definition stringified_set :: "jsval list \<Rightarrow> json option list" where
  "stringified_set results =
     fold (\<lambda>result s. if truthy result \<and> \<not> instanceof_Error result
                       then Set_add (JSON_stringify result) s else s) results []"

text \<open>
  The callback of \<open>Promise.all(...).then\<close> in \<open>MultiExplorer.blockhash\<close>, applied to the
  softened results. The result is the state the returned promise reaches; \<open>None\<close> is a
  promise that never settles, which is what would remain if \<open>JSON.parse\<close> threw inside the
  callback.
\<close>

definition blockhash_consensus :: "string \<Rightarrow> jsval list \<Rightarrow> outcome option" where
  "blockhash_consensus height results =
     (case stringified_set results of
        [] \<Rightarrow> Some (Rejected (JError (''No block height '' @ height @ ''found'')))
      | [x] \<Rightarrow> (case x of None \<Rightarrow> None | Some text \<Rightarrow> Some (Resolved (JSON_parse text)))
      | _ \<Rightarrow> Some (Rejected (JError (''Different block height '' @ height @ ''found''))))"

text \<open>The same callback in \<open>MultiExplorer.block\<close>.\<close>

definition block_consensus :: "string \<Rightarrow> jsval list \<Rightarrow> outcome option" where
  "block_consensus hash results =
     (case stringified_set results of
        [] \<Rightarrow> Some (Rejected (JError (''No block hash '' @ hash @ ''found'')))
      | [x] \<Rightarrow> (case x of None \<Rightarrow> None | Some text \<Rightarrow> Some (Resolved (JSON_parse text)))
      | _ \<Rightarrow> Some (Rejected (JError (''Different block hash '' @ hash @ ''found''))))"





section \<open>Notions used to state the properties\<close>







section \<open>Properties of the normalizers\<close>

lemma get_prop_falsy: "\<not> truthy body \<Longrightarrow> get_prop body k = JUndefined"
  by (cases body) simp_all

text \<open>
  C4. When a body for the Insight family and a body for the Blockstream family carry the same
  merkle root and the same timestamp, the first under \<open>merkleroot\<close> and \<open>time\<close>, the second
  under \<open>merkle_root\<close> and \<open>timestamp\<close>, the two \<open>parseBlockInfo\<close> resolve with the same
  values: each resolves with a value exactly when the other resolves with it, and when both
  fields are truthy that value is the object \<open>{merkleroot, time}\<close> of the pair.
\<close>

theorem normalizers_agree:
  assumes "get_prop a ''merkleroot'' = get_prop b ''merkle_root''"
      and "get_prop a ''time'' = get_prop b ''timestamp''"
  shows "(\<forall>v. ChainInsight_parseBlockInfo (Body a) = Resolved v
              \<longleftrightarrow> Blockstream_parseBlockInfo (Body b) = Resolved v)
       \<and> (truthy (get_prop a ''merkleroot'') \<and> truthy (get_prop a ''time'') \<longrightarrow>
            ChainInsight_parseBlockInfo (Body a) =
              Resolved (JObj [(''merkleroot'', get_prop a ''merkleroot''),
                              (''time'', get_prop a ''time'')])
          \<and> Blockstream_parseBlockInfo (Body b) = ChainInsight_parseBlockInfo (Body a))"
proof -
  have fa: "\<not> truthy a \<Longrightarrow> \<not> truthy (get_prop a ''merkleroot'')"
    by (simp add: get_prop_falsy)
  have fb: "\<not> truthy b \<Longrightarrow> \<not> truthy (get_prop b ''merkle_root'')"
    by (simp add: get_prop_falsy)
  show ?thesis
    using assms fa fb by auto
qed

theorem normalizers_agree_witness:
  "ChainInsight_parseBlockInfo
     (Body (JObj [(''hash'', JStr ''00''), (''merkleroot'', JStr ''4a5e''),
                  (''time'', JNum 1231006505)]))
   = Resolved (JObj [(''merkleroot'', JStr ''4a5e''), (''time'', JNum 1231006505)])
   \<and> Blockstream_parseBlockInfo
     (Body (JObj [(''timestamp'', JNum 1231006505), (''merkle_root'', JStr ''4a5e'')]))
   = Resolved (JObj [(''merkleroot'', JStr ''4a5e''), (''time'', JNum 1231006505)])"
  using normalizers_agree
    [of "JObj [(''hash'', JStr ''00''), (''merkleroot'', JStr ''4a5e''),
               (''time'', JNum 1231006505)]"
        "JObj [(''timestamp'', JNum 1231006505), (''merkle_root'', JStr ''4a5e'')]"]
  by simp

text \<open>
  C5. On every body, \<open>parseBlockInfo\<close> of either family does one of two things. When the body
  is falsy (absent), or its merkle-root field or its timestamp field is missing or falsy, it
  rejects with the family's response error. Otherwise it resolves with an object that has
  both \<open>merkleroot\<close> and \<open>time\<close>, read from the body. It never resolves with one field only.
\<close>

theorem parseBlockInfo_complete_or_malformed:
  "((\<not> truthy body \<or> \<not> truthy (get_prop body ''merkleroot'')
        \<or> \<not> truthy (get_prop body ''time''))
      \<and> ChainInsight_parseBlockInfo (Body body) =
          Rejected (JError ''Insight response error body '')
    \<or> (truthy body \<and> truthy (get_prop body ''merkleroot'')
        \<and> truthy (get_prop body ''time''))
      \<and> ChainInsight_parseBlockInfo (Body body) =
          Resolved (JObj [(''merkleroot'', get_prop body ''merkleroot''),
                          (''time'', get_prop body ''time'')]))
   \<and> ((\<not> truthy body \<or> \<not> truthy (get_prop body ''merkle_root'')
        \<or> \<not> truthy (get_prop body ''timestamp''))
      \<and> Blockstream_parseBlockInfo (Body body) =
          Rejected (JError ''Blockstream response error body '')
    \<or> (truthy body \<and> truthy (get_prop body ''merkle_root'')
        \<and> truthy (get_prop body ''timestamp''))
      \<and> Blockstream_parseBlockInfo (Body body) =
          Resolved (JObj [(''merkleroot'', get_prop body ''merkle_root''),
                          (''time'', get_prop body ''timestamp'')]))"
  by simp

theorem parseBlockInfo_complete_or_malformed_witness:
  "ChainInsight_parseBlockInfo (Body (JObj [(''merkleroot'', JStr ''4a5e''), (''time'', JNum 0)]))
     = Rejected (JError ''Insight response error body '')
   \<and> Blockstream_parseBlockInfo
       (Body (JObj [(''merkle_root'', JStr ''4a5e''), (''timestamp'', JNum 1231006505)]))
     = Resolved (JObj [(''merkleroot'', JStr ''4a5e''), (''time'', JNum 1231006505)])"
  using parseBlockInfo_complete_or_malformed
          [of "JObj [(''merkleroot'', JStr ''4a5e''), (''time'', JNum 0)]"]
        parseBlockInfo_complete_or_malformed
          [of "JObj [(''merkle_root'', JStr ''4a5e''), (''timestamp'', JNum 1231006505)]"]
  by simp

section \<open>Properties of the constructor\<close>

lemma push_explorers_bad:
  "\<exists>s\<in>set es. \<forall>u. url s \<noteq> JStr u \<Longrightarrow>
     push_explorers t es acc = Inl (TypeError ''URL must be a string'')"
  by (induction es arbitrary: acc) (auto split: jsval.splits)

lemma push_explorers_good:
  "\<forall>s\<in>set es. \<exists>u. url s = JStr u \<Longrightarrow>
     \<exists>xs. push_explorers t es acc = Inr (acc @ xs) \<and> length xs = length es
        \<and> (\<forall>i<length es. cls (xs ! i) =
              (if type (es ! i) = JStr ''insight'' then ChainInsightClass else BlockstreamClass))"
proof (induction es arbitrary: acc)
  case Nil
  then show ?case by simp
next
  case (Cons e es)
  from Cons.prems obtain u where u: "url e = JStr u"
    by auto
  let ?x = "if truthy (type e) \<and> type e = JStr ''insight''
            then ChainInsight u t else Blockstream u t"
  from Cons.prems have "\<forall>s\<in>set es. \<exists>u. url s = JStr u" by simp
  from Cons.IH [OF this, of "acc @ [?x]"]
  obtain xs where xs: "push_explorers t es (acc @ [?x]) = Inr ((acc @ [?x]) @ xs)"
    "length xs = length es"
    "\<forall>i<length es. cls (xs ! i) =
        (if type (es ! i) = JStr ''insight'' then ChainInsightClass else BlockstreamClass)"
    by blast
  have c: "cls ?x = (if type e = JStr ''insight'' then ChainInsightClass else BlockstreamClass)"
    by (auto simp: ChainInsight_def Blockstream_def)
  have "push_explorers t (e # es) acc = Inr (acc @ (?x # xs))"
    using u xs(1) by simp
  moreover have "length (?x # xs) = length (e # es)"
    using xs(2) by simp
  moreover have "\<forall>i<length (e # es). cls ((?x # xs) ! i) =
        (if type ((e # es) ! i) = JStr ''insight'' then ChainInsightClass else BlockstreamClass)"
  proof (intro allI impI)
    fix i assume "i < length (e # es)"
    then show "cls ((?x # xs) ! i) =
        (if type ((e # es) ! i) = JStr ''insight'' then ChainInsightClass else BlockstreamClass)"
      using c xs(3) by (cases i) auto
  qed
  ultimately show ?case by blast
qed

lemma push_explorers_defaults:
  "push_explorers t (map (\<lambda>u. \<lparr>url = JStr u, type = JStr ''insight''\<rparr>) urls) acc
     = Inr (acc @ map (\<lambda>u. ChainInsight u t) urls)"
  by (induction urls arbitrary: acc) auto

lemma MultiExplorer_new_given:
  "opt_explorers opts = Some es \<Longrightarrow> 2 \<le> length es \<Longrightarrow>
   MultiExplorer_new (Some opts) =
     (case push_explorers (timeout_option (Some opts)) es [] of
        Inl err \<Rightarrow> Inl err | Inr xs \<Rightarrow> Inr \<lparr>explorers = xs\<rparr>)"
  by (simp add: MultiExplorer_new_def chosen_explorers_def explorersOptionSet_def)

text \<open>
  C6, as stated, fails: with no list of explorers and the chain \<open>bitcoin-testnet\<close>, which
  is not a key of the registry (the key is \<open>bitcoinTestnet\<close>), the constructor throws and
  no MultiExplorer is built.
\<close>

theorem unknown_chain_counterexample:
  "MultiExplorer_new
     (Some \<lparr>opt_timeout = None, opt_chain = Some ''bitcoin-testnet'', opt_explorers = None\<rparr>)
   = Inl (TypeError ''Cannot read property map of undefined'')"
  by (simp add: MultiExplorer_new_def chosen_explorers_def explorersOptionSet_def
      chain_option_def publicChainInsightUrls_def)

text \<open>
  C6, amended. When the list of explorers is omitted or has fewer than two entries and the
  chain (default \<open>bitcoin\<close>) is a key of the registry, the MultiExplorer holds one
  ChainInsight explorer for each url of the registry entry of the chain, in order, with the
  timeout of the options (default 10 seconds). For any other chain the constructor throws.
\<close>

theorem defaults_from_registry:
  assumes "opts = None \<or> (\<exists>opt. opts = Some opt \<and>
             (opt_explorers opt = None \<or> (\<exists>es. opt_explorers opt = Some es \<and> length es < 2)))"
  shows "MultiExplorer_new opts =
           (case publicChainInsightUrls (chain_option opts) of
              Some urls \<Rightarrow>
                Inr \<lparr>explorers = map (\<lambda>u. ChainInsight u (timeout_option opts)) urls\<rparr>
            | None \<Rightarrow> Inl (TypeError ''Cannot read property map of undefined''))"
  using assms
  by (auto simp: MultiExplorer_new_def chosen_explorers_def explorersOptionSet_def
      push_explorers_defaults split: option.splits)

theorem defaults_from_registry_witness:
  "MultiExplorer_new
     (Some \<lparr>opt_timeout = Some 11, opt_chain = Some ''litecoin'',
            opt_explorers = Some [\<lparr>url = JStr ''https://blockstream.info/api'',
                                   type = JStr ''blockstream''\<rparr>]\<rparr>)
   = Inr \<lparr>explorers = [ChainInsight ''https://ltc-bitcore1.trezor.io/api'' 11,
                        ChainInsight ''https://insight.litecore.io/api'' 11]\<rparr>"
  using defaults_from_registry
    [of "Some \<lparr>opt_timeout = Some 11, opt_chain = Some ''litecoin'',
               opt_explorers = Some [\<lparr>url = JStr ''https://blockstream.info/api'',
                                      type = JStr ''blockstream''\<rparr>]\<rparr>"]
  by (simp add: chain_option_def timeout_option_def publicChainInsightUrls_def)

text \<open>
  C7, as stated, fails: a list with a single entry is not used at all, so an entry whose url
  is the number 42 does not make the constructor throw; the MultiExplorer is built from the
  registry.
\<close>

theorem ignored_non_string_url_counterexample:
  "MultiExplorer_new
     (Some \<lparr>opt_timeout = None, opt_chain = Some ''litecoin'',
            opt_explorers = Some [\<lparr>url = JNum 42, type = JStr ''insight''\<rparr>]\<rparr>)
   = Inr \<lparr>explorers = [ChainInsight ''https://ltc-bitcore1.trezor.io/api'' 10,
                        ChainInsight ''https://insight.litecore.io/api'' 10]\<rparr>"
  by (simp add: MultiExplorer_new_def chosen_explorers_def explorersOptionSet_def
      chain_option_def timeout_option_def publicChainInsightUrls_def)

text \<open>
  C7, amended. When the list of explorers has at least two entries and one of them has a url
  that is not a string, the constructor throws the TypeError \<open>URL must be a string\<close>; no
  MultiExplorer exists that could be queried.
\<close>

theorem non_string_url_throws:
  assumes "opt_explorers opts = Some es" and "2 \<le> length es"
      and "\<exists>s\<in>set es. \<forall>u. url s \<noteq> JStr u"
  shows "MultiExplorer_new (Some opts) = Inl (TypeError ''URL must be a string'')"
  using assms by (simp add: MultiExplorer_new_given push_explorers_bad)

theorem non_string_url_throws_witness:
  "MultiExplorer_new
     (Some \<lparr>opt_timeout = None, opt_chain = None,
            opt_explorers = Some [\<lparr>url = JStr ''https://blockstream.info/api'',
                                   type = JStr ''blockstream''\<rparr>,
                                  \<lparr>url = JUndefined, type = JStr ''insight''\<rparr>]\<rparr>)
   = Inl (TypeError ''URL must be a string'')"
  using non_string_url_throws
    [of "\<lparr>opt_timeout = None, opt_chain = None,
          opt_explorers = Some [\<lparr>url = JStr ''https://blockstream.info/api'',
                                 type = JStr ''blockstream''\<rparr>,
                                \<lparr>url = JUndefined, type = JStr ''insight''\<rparr>]\<rparr>"
        "[\<lparr>url = JStr ''https://blockstream.info/api'', type = JStr ''blockstream''\<rparr>,
          \<lparr>url = JUndefined, type = JStr ''insight''\<rparr>]"]
  by simp

text \<open>
  C8, as stated, fails: the empty string is a string, and a list of two entries whose urls
  are empty is accepted.
\<close>

theorem empty_url_counterexample:
  "MultiExplorer_new
     (Some \<lparr>opt_timeout = None, opt_chain = None,
            opt_explorers = Some [\<lparr>url = JStr '''', type = JStr ''insight''\<rparr>,
                                  \<lparr>url = JStr '''', type = JStr ''blockstream''\<rparr>]\<rparr>)
   = Inr \<lparr>explorers = [ChainInsight '''' 10, Blockstream '''' 10]\<rparr>"
  by (simp add: MultiExplorer_new_def chosen_explorers_def explorersOptionSet_def
      timeout_option_def)

text \<open>
  C8, amended. For a list of at least two entries, the constructor builds a MultiExplorer
  exactly when the url of every entry is a string, the empty string included; otherwise it
  throws at construction.
\<close>

theorem construction_succeeds_iff_string_urls:
  assumes "opt_explorers opts = Some es" and "2 \<le> length es"
  shows "(\<exists>m. MultiExplorer_new (Some opts) = Inr m) \<longleftrightarrow> (\<forall>s\<in>set es. \<exists>u. url s = JStr u)"
proof (cases "\<forall>s\<in>set es. \<exists>u. url s = JStr u")
  case True
  from push_explorers_good [OF True]
  obtain xs where "push_explorers (timeout_option (Some opts)) es [] = Inr ([] @ xs)"
    by blast
  with True assms show ?thesis by (simp add: MultiExplorer_new_given)
next
  case False
  then have "\<exists>s\<in>set es. \<forall>u. url s \<noteq> JStr u" by simp
  from push_explorers_bad [OF this] False assms show ?thesis
    by (simp add: MultiExplorer_new_given)
qed

theorem construction_succeeds_iff_string_urls_witness:
  "\<exists>m. MultiExplorer_new
     (Some \<lparr>opt_timeout = Some 11, opt_chain = Some ''bitcoinTestnet'',
            opt_explorers = Some [\<lparr>url = JStr ''https://blockstream.info/testnet/api'',
                                   type = JStr ''blockstream''\<rparr>,
                                  \<lparr>url = JStr '''', type = JStr ''insight''\<rparr>]\<rparr>) = Inr m"
  using construction_succeeds_iff_string_urls
    [of "\<lparr>opt_timeout = Some 11, opt_chain = Some ''bitcoinTestnet'',
          opt_explorers = Some [\<lparr>url = JStr ''https://blockstream.info/testnet/api'',
                                 type = JStr ''blockstream''\<rparr>,
                                \<lparr>url = JStr '''', type = JStr ''insight''\<rparr>]\<rparr>"
        "[\<lparr>url = JStr ''https://blockstream.info/testnet/api'', type = JStr ''blockstream''\<rparr>,
          \<lparr>url = JStr '''', type = JStr ''insight''\<rparr>]"]
  by simp

text \<open>
  C9, as stated, fails: an entry whose type is \<open>dogecoin-explorer\<close>, which is neither
  \<open>insight\<close> nor \<open>blockstream\<close>, does not make the constructor throw; the entry becomes a
  Blockstream explorer.
\<close>

theorem unknown_type_counterexample:
  "MultiExplorer_new
     (Some \<lparr>opt_timeout = None, opt_chain = None,
            opt_explorers = Some [\<lparr>url = JStr ''https://a.example/api'',
                                   type = JStr ''dogecoin-explorer''\<rparr>,
                                  \<lparr>url = JStr ''https://b.example/api'',
                                   type = JStr ''insight''\<rparr>]\<rparr>)
   = Inr \<lparr>explorers = [Blockstream ''https://a.example/api'' 10,
                        ChainInsight ''https://b.example/api'' 10]\<rparr>"
  by (simp add: MultiExplorer_new_def chosen_explorers_def explorersOptionSet_def
      timeout_option_def)

text \<open>
  C9, amended. The type of an entry never makes the constructor throw. For a list of at
  least two entries whose urls are strings, the constructor builds one explorer for each
  entry, in order: a ChainInsight explorer when the type is the string \<open>insight\<close>, and a
  Blockstream explorer for every other type, unknown or missing.
\<close>

theorem type_selects_class:
  assumes "opt_explorers opts = Some es" and "2 \<le> length es"
      and "\<forall>s\<in>set es. \<exists>u. url s = JStr u"
  shows "\<exists>m. MultiExplorer_new (Some opts) = Inr m \<and> length (explorers m) = length es
           \<and> (\<forall>i<length es. cls (explorers m ! i) =
                (if type (es ! i) = JStr ''insight''
                 then ChainInsightClass else BlockstreamClass))"
proof -
  from push_explorers_good [OF assms(3)]
  obtain xs where xs: "push_explorers (timeout_option (Some opts)) es [] = Inr ([] @ xs)"
    "length xs = length es"
    "\<forall>i<length es. cls (xs ! i) =
        (if type (es ! i) = JStr ''insight'' then ChainInsightClass else BlockstreamClass)"
    by blast
  show ?thesis using assms(1,2) xs by (simp add: MultiExplorer_new_given)
qed

theorem type_selects_class_witness:
  "\<exists>m. MultiExplorer_new
     (Some \<lparr>opt_timeout = None, opt_chain = None,
            opt_explorers = Some [\<lparr>url = JStr ''https://a.example/api'', type = JUndefined\<rparr>,
                                  \<lparr>url = JStr ''https://b.example/api'',
                                   type = JStr ''insight''\<rparr>]\<rparr>) = Inr m
      \<and> length (explorers m) = 2
      \<and> cls (explorers m ! 0) = BlockstreamClass
      \<and> cls (explorers m ! 1) = ChainInsightClass"
  using type_selects_class
    [of "\<lparr>opt_timeout = None, opt_chain = None,
          opt_explorers = Some [\<lparr>url = JStr ''https://a.example/api'', type = JUndefined\<rparr>,
                                \<lparr>url = JStr ''https://b.example/api'',
                                 type = JStr ''insight''\<rparr>]\<rparr>"
        "[\<lparr>url = JStr ''https://a.example/api'', type = JUndefined\<rparr>,
          \<lparr>url = JStr ''https://b.example/api'', type = JStr ''insight''\<rparr>]"]
  by auto

section \<open>Properties of the consensus\<close>

subsection \<open>The set of texts\<close>

lemma fold_Set_add:
  "distinct acc \<Longrightarrow>
   distinct (fold (\<lambda>r s. if P r then Set_add (f r) s else s) rs acc)
   \<and> set (fold (\<lambda>r s. if P r then Set_add (f r) s else s) rs acc)
       = set acc \<union> f ` {r \<in> set rs. P r}"
  by (induction rs arbitrary: acc) (auto simp: Set_add_def)

lemma distinct_stringified_set: "distinct (stringified_set rs)"
  using fold_Set_add [of "[]" "\<lambda>r. truthy r \<and> \<not> instanceof_Error r" JSON_stringify rs]
  by (simp add: stringified_set_def)

lemma set_stringified_set:
  "set (stringified_set rs)
     = JSON_stringify ` {r \<in> set rs. truthy r \<and> \<not> instanceof_Error r}"
  using fold_Set_add [of "[]" "\<lambda>r. truthy r \<and> \<not> instanceof_Error r" JSON_stringify rs]
  by (simp add: stringified_set_def)

lemma fold_skip:
  "\<forall>r\<in>set rs. \<not> P r \<Longrightarrow> fold (\<lambda>r s. if P r then g r s else s) rs acc = acc"
  by (induction rs arbitrary: acc) simp_all

lemma stringified_set_skip:
  "\<not> (truthy r \<and> \<not> instanceof_Error r) \<Longrightarrow>
     stringified_set (xs @ r # ys) = stringified_set (xs @ ys)"
  by (auto simp: stringified_set_def)

text \<open>The decision on the size of a Set depends on the elements only, not on their order.\<close>

lemma three_way:
  "distinct xs \<Longrightarrow>
   (case xs of [] \<Rightarrow> a | [x] \<Rightarrow> f x | _ \<Rightarrow> c)
     = (if set xs = {} then a else if is_singleton (set xs) then f (the_elem (set xs)) else c)"
proof (cases xs)
  case Nil
  then show ?thesis by simp
next
  case (Cons x ys)
  assume d: "distinct xs"
  show ?thesis
  proof (cases ys)
    case Nil
    with Cons show ?thesis by (simp add: is_singleton_def)
  next
    case (Cons y zs)
    with \<open>xs = x # ys\<close> d have "x \<noteq> y" by simp
    then have "\<not> is_singleton (set xs)"
      using Cons \<open>xs = x # ys\<close> by (auto simp: is_singleton_def)
    then show ?thesis using Cons \<open>xs = x # ys\<close> by simp
  qed
qed

lemma blockhash_consensus_set:
  "blockhash_consensus height rs =
     (if set (stringified_set rs) = {}
      then Some (Rejected (JError (''No block height '' @ height @ ''found'')))
      else if is_singleton (set (stringified_set rs))
      then (case the_elem (set (stringified_set rs)) of
              None \<Rightarrow> None | Some text \<Rightarrow> Some (Resolved (JSON_parse text)))
      else Some (Rejected (JError (''Different block height '' @ height @ ''found''))))"
  unfolding blockhash_consensus_def
  by (rule three_way [OF distinct_stringified_set])

lemma block_consensus_set:
  "block_consensus hash rs =
     (if set (stringified_set rs) = {}
      then Some (Rejected (JError (''No block hash '' @ hash @ ''found'')))
      else if is_singleton (set (stringified_set rs))
      then (case the_elem (set (stringified_set rs)) of
              None \<Rightarrow> None | Some text \<Rightarrow> Some (Resolved (JSON_parse text)))
      else Some (Rejected (JError (''Different block hash '' @ hash @ ''found''))))"
  unfolding block_consensus_def
  by (rule three_way [OF distinct_stringified_set])

subsection \<open>Parsing a written text gives the value back\<close>





subsection \<open>What the explorers settle with\<close>












subsection \<open>The claims on the consensus\<close>







text \<open>
  C3. The decision of \<open>blockhash\<close> and of \<open>block\<close> is the same for two lists of settled
  promises that are permutations of each other: the same rejection, or the resolution with
  the same value.
\<close>

theorem consensus_order_independent:
  assumes "mset os = mset os'"
  shows "blockhash_consensus height (map softFail os)
           = blockhash_consensus height (map softFail os')
       \<and> block_consensus hash (map softFail os) = block_consensus hash (map softFail os')"
proof -
  from assms have "set os = set os'" by (rule mset_eq_setD)
  then have "set (map softFail os) = set (map softFail os')" by simp
  then have "set (stringified_set (map softFail os)) = set (stringified_set (map softFail os'))"
    by (simp only: set_stringified_set)
  then show ?thesis
    by (simp only: blockhash_consensus_set block_consensus_set)
qed

theorem consensus_order_independent_witness:
  "mset [Resolved (JStr ''00ab''), Rejected (JError ''Error: ESOCKETTIMEDOUT''),
         Resolved (JStr ''00cd'')]
   = mset [Resolved (JStr ''00cd''), Resolved (JStr ''00ab''),
           Rejected (JError ''Error: ESOCKETTIMEDOUT'')]
   \<and> blockhash_consensus ''0''
       (map softFail [Resolved (JStr ''00ab''), Rejected (JError ''Error: ESOCKETTIMEDOUT''),
                      Resolved (JStr ''00cd'')])
     = blockhash_consensus ''0''
       (map softFail [Resolved (JStr ''00cd''), Resolved (JStr ''00ab''),
                      Rejected (JError ''Error: ESOCKETTIMEDOUT'')])
   \<and> block_consensus ''00ab''
       (map softFail [Resolved (JStr ''00ab''), Rejected (JError ''Error: ESOCKETTIMEDOUT''),
                      Resolved (JStr ''00cd'')])
     = block_consensus ''00ab''
       (map softFail [Resolved (JStr ''00cd''), Resolved (JStr ''00ab''),
                      Rejected (JError ''Error: ESOCKETTIMEDOUT'')])"
proof -
  have p: "mset [Resolved (JStr ''00ab''), Rejected (JError ''Error: ESOCKETTIMEDOUT''),
                 Resolved (JStr ''00cd'')]
         = mset [Resolved (JStr ''00cd''), Resolved (JStr ''00ab''),
                 Rejected (JError ''Error: ESOCKETTIMEDOUT'')]"
    by simp
  from p consensus_order_independent [OF p, of "''0''" "''00ab''"]
  show ?thesis by (simp only: simp_thms)
qed

text \<open>
  C10. A resolved value that is falsy (the empty string, \<open>null\<close>, 0, \<open>undefined\<close>, \<open>false\<close>) is
  left out of the consensus exactly as a rejection is: replacing, anywhere in the list of
  settled promises, such a resolution by a rejection with an \<open>Error\<close> does not change the
  result of \<open>blockhash\<close> or of \<open>block\<close>. When every promise resolved with a falsy value, the
  result is the rejection \<open>No block height\<close> (or \<open>hash\<close>) followed by the parameter and
  \<open>found\<close>.
\<close>

theorem falsy_success_discarded:
  "(\<not> truthy v \<longrightarrow>
      blockhash_consensus height (map softFail (xs @ Resolved v # ys))
        = blockhash_consensus height (map softFail (xs @ Rejected (JError err) # ys))
    \<and> block_consensus hash (map softFail (xs @ Resolved v # ys))
        = block_consensus hash (map softFail (xs @ Rejected (JError err) # ys)))
   \<and> ((\<forall>x\<in>set os. \<exists>w. x = Resolved w \<and> \<not> truthy w) \<longrightarrow>
      blockhash_consensus height (map softFail os)
        = Some (Rejected (JError (''No block height '' @ height @ ''found'')))
    \<and> block_consensus hash (map softFail os)
        = Some (Rejected (JError (''No block hash '' @ hash @ ''found''))))"
proof (intro conjI impI)
  assume v: "\<not> truthy v"
  have a: "stringified_set (map softFail (xs @ Resolved v # ys))
         = stringified_set (map softFail (xs @ ys))"
    using v by (simp add: stringified_set_skip)
  have b: "stringified_set (map softFail (xs @ Rejected (JError err) # ys))
         = stringified_set (map softFail (xs @ ys))"
    by (simp add: stringified_set_skip)
  show "blockhash_consensus height (map softFail (xs @ Resolved v # ys))
        = blockhash_consensus height (map softFail (xs @ Rejected (JError err) # ys))"
    by (simp only: blockhash_consensus_def a b)
  show "block_consensus hash (map softFail (xs @ Resolved v # ys))
        = block_consensus hash (map softFail (xs @ Rejected (JError err) # ys))"
    by (simp only: block_consensus_def a b)
next
  assume all: "\<forall>x\<in>set os. \<exists>w. x = Resolved w \<and> \<not> truthy w"
  then have "\<forall>r\<in>set (map softFail os). \<not> (truthy r \<and> \<not> instanceof_Error r)"
    by auto
  then have e: "stringified_set (map softFail os) = []"
    unfolding stringified_set_def by (rule fold_skip)
  show "blockhash_consensus height (map softFail os)
        = Some (Rejected (JError (''No block height '' @ height @ ''found'')))"
    by (simp add: blockhash_consensus_def e)
  show "block_consensus hash (map softFail os)
        = Some (Rejected (JError (''No block hash '' @ hash @ ''found'')))"
    by (simp add: block_consensus_def e)
qed

theorem falsy_success_discarded_witness:
  "blockhash_consensus ''0''
     (map softFail ([Resolved (JStr ''00ab'')] @ Resolved (JStr '''') # [Resolved (JStr ''00ab'')]))
   = blockhash_consensus ''0''
     (map softFail ([Resolved (JStr ''00ab'')] @ Rejected (JError ''Error: ESOCKETTIMEDOUT'')
                      # [Resolved (JStr ''00ab'')]))
   \<and> blockhash_consensus ''0'' (map softFail [Resolved (JStr ''''), Resolved JNull, Resolved (JNum 0)])
   = Some (Rejected (JError ''No block height 0found''))
   \<and> block_consensus ''00ab'' (map softFail [Resolved (JStr ''''), Resolved JNull, Resolved (JNum 0)])
   = Some (Rejected (JError ''No block hash 00abfound''))"
  using falsy_success_discarded
    [of "JStr ''''" "''0''" "[Resolved (JStr ''00ab'')]" "[Resolved (JStr ''00ab'')]"
        "''Error: ESOCKETTIMEDOUT''" "''00ab''"
        "[Resolved (JStr ''''), Resolved JNull, Resolved (JNum 0)]"]
  by simp

end
